theory Spec2Isabelle
  imports Complex_Main "HOL-Library.Word" "HOL-Library.Signed_Division"
begin

unbundle bit_operations_syntax

section \<open>The Silo HDF5 driver (silo_hdf5.c)\<close>

subsection \<open>Types and process-wide state\<close>

text \<open>
  The class of an HDF5 datatype, as \<open>H5Tget_class\<close> reports it.  The driver
  distinguishes \<open>H5T_INTEGER\<close> and \<open>H5T_FLOAT\<close>; every other class takes the
  \<open>default\<close> branch of its switches.
\<close>

datatype H5T_class_t =
    H5T_NO_CLASS | H5T_INTEGER | H5T_FLOAT | H5T_TIME | H5T_STRING | H5T_BITFIELD
  | H5T_OPAQUE | H5T_COMPOUND | H5T_REFERENCE | H5T_ENUM | H5T_VLEN | H5T_ARRAY

text \<open>A stored (file) datatype, seen through \<open>H5Tget_class\<close> and \<open>H5Tget_size\<close>.\<close>

record h5type =
  H5Tget_class :: H5T_class_t
  H5Tget_size :: nat

text \<open>The Silo datatype tags the driver hands out; \<open>None\<close> stands for the C value -1.\<close>

datatype DBdatatype = DB_INT | DB_SHORT | DB_LONG | DB_FLOAT | DB_DOUBLE | DB_CHAR

text \<open>The native memory types of HDF5 the driver selects between.\<close>

datatype native_type =
    H5T_NATIVE_UCHAR | H5T_NATIVE_SHORT | H5T_NATIVE_INT | H5T_NATIVE_LONG
  | H5T_NATIVE_FLOAT | H5T_NATIVE_DOUBLE

text \<open>
  The \<open>sizeof\<close> values of the platform the driver is compiled for, in bytes;
  \<open>sizeof(char)\<close> is 1 in C.
\<close>

record c_sizes =
  sizeof_short :: nat
  sizeof_int :: nat
  sizeof_long :: nat
  sizeof_float :: nat
  sizeof_double :: nat

definition sizeof_char :: nat where
  "sizeof_char = 1"


definition lp64 :: c_sizes where
  "lp64 = \<lparr>sizeof_short = 2, sizeof_int = 4, sizeof_long = 8, sizeof_float = 4, sizeof_double = 8\<rparr>"

text \<open>
  The bits of the data read mask that this part of the driver tests or sets; the mask
  is the set of the bits that are on.
\<close>

datatype read_flag =
    DBUMZonelist | DBZonelistInfo | DBZonelistGlobZoneNo | DBUMCoords | DBUMGlobNodeNo
  | DBUMFacelist | DBUVData

text \<open>The file-scope variable \<open>force_single_g\<close> and the fields of \<open>SILO_Globals\<close> the driver reads.\<close>

record globals =
  force_single_g :: int
  dataReadMask :: "read_flag set"
  enableChecksums :: int
  enableCompression :: int
  enableFriendlyHDF5Names :: int

subsection \<open>Type inference: hdf2silo_type, hdf2hdf_type, silo2silo_type\<close>


definition silo2silo_type :: "globals \<Rightarrow> DBdatatype option \<Rightarrow> DBdatatype" where
  "silo2silo_type g datatype =
     (case datatype of
        Some DB_CHAR \<Rightarrow> DB_CHAR
      | None \<Rightarrow> if force_single_g g \<noteq> 0 then DB_FLOAT else DB_DOUBLE
      | Some DB_FLOAT \<Rightarrow> if force_single_g g \<noteq> 0 then DB_FLOAT else DB_DOUBLE
      | Some DB_DOUBLE \<Rightarrow> if force_single_g g \<noteq> 0 then DB_FLOAT else DB_DOUBLE
      | _ \<Rightarrow> DB_INT)"

definition hdf2hdf_type :: "c_sizes \<Rightarrow> h5type \<Rightarrow> native_type option" where
  "hdf2hdf_type sz ftype =
     (case H5Tget_class ftype of
        H5T_INTEGER \<Rightarrow>
          if sizeof_char \<ge> H5Tget_size ftype then Some H5T_NATIVE_UCHAR
          else if sizeof_short sz \<ge> H5Tget_size ftype then Some H5T_NATIVE_SHORT
          else if sizeof_int sz \<ge> H5Tget_size ftype then Some H5T_NATIVE_INT
          else Some H5T_NATIVE_LONG
      | H5T_FLOAT \<Rightarrow>
          if sizeof_double sz \<noteq> sizeof_float sz \<and> sizeof_float sz \<ge> H5Tget_size ftype
          then Some H5T_NATIVE_FLOAT
          else if sizeof_double sz \<ge> H5Tget_size ftype then Some H5T_NATIVE_DOUBLE
          else Some H5T_NATIVE_FLOAT
      | _ \<Rightarrow> None)"





subsection \<open>Machine integers and the faults of C\<close>

text \<open>
  \<open>int\<close> is modelled as a 32-bit word and \<open>hsize_t\<close> as a 64-bit word.  Signed
  overflow wraps around (two's complement); a division whose divisor is zero is a
  fault of the program and is kept as a value of its own, like the dereference of
  a null pointer.
\<close>

type_synonym c_int = "32 word"
type_synonym hsize_t = "64 word"

datatype c_fault =
    DivideByZero | NullDereference | BufferOverflow | DanglingPointer | UninitializedMemory
  | AssertionFailed

definition c_div :: "c_int \<Rightarrow> c_int \<Rightarrow> c_fault + c_int" where
  "c_div a b = (if b = 0 then Inl DivideByZero else Inr (word_of_int (sint a sdiv sint b)))"

text \<open>The conversion of an \<open>int\<close> to \<open>hsize_t\<close> extends the sign and then reads the bits as unsigned.\<close>

definition int_to_hsize :: "c_int \<Rightarrow> hsize_t" where
  "int_to_hsize x = word_of_int (sint x)"

subsection \<open>Hyperslab selection: build_fspace\<close>

text \<open>
  A dataspace with the hyperslab selected on it: per dimension the offset, the
  stride and the count handed to \<open>H5Sselect_hyperslab\<close>.
\<close>

record hyperslab_dim =
  hs_offset :: hsize_t
  hs_stride :: hsize_t
  hs_count :: hsize_t

record 'sp selected_space =
  fspace_of :: 'sp
  selection :: "hyperslab_dim list"

text \<open>
  The two calls into HDF5 that \<open>build_fspace\<close> makes; each may fail (\<open>None\<close>).
  \<open>H5S_MAX_RANK\<close> comes from the headers of HDF5.
\<close>

record ('ds, 'sp) h5_select =
  H5S_MAX_RANK :: int
  H5Dget_space :: "'ds \<Rightarrow> 'sp option"
  H5Sselect_hyperslab :: "'sp \<Rightarrow> hyperslab_dim list \<Rightarrow> bool"

text \<open>The body of the loop for one dimension: the count of elements selected in it.\<close>

definition hs_count_dim :: "c_int \<Rightarrow> c_int \<Rightarrow> c_fault + hsize_t" where
  "hs_count_dim len str =
     (if str \<noteq> 0 then
        (case c_div (len + str - 1) str of
           Inl f \<Rightarrow> Inl f
         | Inr q \<Rightarrow> Inr (int_to_hsize q))
      else Inr 1)"

text \<open>
  The loop \<open>for (i=0; i<ndims; i++)\<close>, over the arrays the three pointers address;
  it yields the first \<open>n\<close> entries of \<open>hs_offset\<close>, \<open>hs_stride\<close> and \<open>hs_count\<close>.
\<close>

fun build_fspace_loop ::
  "nat \<Rightarrow> (nat \<Rightarrow> c_int) \<Rightarrow> (nat \<Rightarrow> c_int) \<Rightarrow> (nat \<Rightarrow> c_int) \<Rightarrow> c_fault + hyperslab_dim list" where
  "build_fspace_loop 0 offset len stride = Inr []"
| "build_fspace_loop (Suc i) offset len stride =
     (case build_fspace_loop i offset len stride of
        Inl f \<Rightarrow> Inl f
      | Inr hs \<Rightarrow>
          (case hs_count_dim (len i) (stride i) of
             Inl f \<Rightarrow> Inl f
           | Inr c \<Rightarrow>
               Inr (hs @ [\<lparr>hs_offset = int_to_hsize (offset i),
                           hs_stride = int_to_hsize (stride i),
                           hs_count = c\<rparr>])))"

text \<open>
  \<open>build_fspace\<close> returns the selected file space (\<open>None\<close> for the C value -1)
  and the array \<open>size\<close> as the loop left it, when the caller passed one.
\<close>

definition write_size :: "hyperslab_dim list \<Rightarrow> (nat \<Rightarrow> hsize_t) \<Rightarrow> nat \<Rightarrow> hsize_t" where
  "write_size hs size_out i = (if i < length hs then hs_count (hs ! i) else size_out i)"

definition build_fspace ::
  "('ds, 'sp) h5_select \<Rightarrow> 'ds \<Rightarrow> int \<Rightarrow> (nat \<Rightarrow> c_int) \<Rightarrow> (nat \<Rightarrow> c_int) \<Rightarrow> (nat \<Rightarrow> c_int) \<Rightarrow>
   (nat \<Rightarrow> hsize_t) option \<Rightarrow> c_fault + ('sp selected_space option \<times> (nat \<Rightarrow> hsize_t) option)" where
  "build_fspace h5 dset ndims offset len stride size_out =
     (if ndims > H5S_MAX_RANK h5 then Inr (None, size_out)
      else
        (case build_fspace_loop (nat ndims) offset len stride of
           Inl f \<Rightarrow> Inl f
         | Inr hs \<Rightarrow>
             (let size' = map_option (write_size hs) size_out in
              case H5Dget_space h5 dset of
                None \<Rightarrow> Inr (None, size')
              | Some fspace \<Rightarrow>
                  if \<not> H5Sselect_hyperslab h5 fspace hs then Inr (None, size')
                  else Inr (Some \<lparr>fspace_of = fspace, selection = hs\<rparr>, size'))))"

text \<open>The ceiling of the quotient of two integers, as the specification writes it.\<close>

definition ceil_div :: "int \<Rightarrow> int \<Rightarrow> int" where
  "ceil_div a b = \<lceil>real_of_int a / real_of_int b\<rceil>"


subsection \<open>The nodelist cache: keptNodelistInfos\<close>

text \<open>
  A file handle \<open>DBfile_hdf5 *\<close>: the identity of the pointer and the name of the
  current working group that \<open>db_hdf5_GetDir\<close> reports for it.
\<close>

record dbfile =
  file_id :: nat
  cwg_name :: string

datatype zonetype = DB_ZONETYPE_QUAD | DB_ZONETYPE_HEX

record DBzonelist =
  zl_ndims :: c_int
  zl_nzones :: c_int
  zl_nshapes :: c_int
  zl_origin :: c_int
  zl_shapecnt :: "c_int list"
  zl_shapetype :: "zonetype list"
  zl_shapesize :: "c_int list"
  zl_lnodelist :: c_int
  zl_nodelist :: "c_int list option"

text \<open>One slot of the cache; \<open>None\<close> is the null pointer, as \<open>memset\<close> leaves every field.\<close>

record zlInfo_t =
  db5file :: "nat option"
  meshname :: "string option"
  zlname :: "string option"
  zl :: "DBzonelist option"

definition MAX_NODELIST_INFOS :: nat where
  "MAX_NODELIST_INFOS = 32"

definition empty_slot :: zlInfo_t where
  "empty_slot = \<lparr>db5file = None, meshname = None, zlname = None, zl = None\<rparr>"

text \<open>
  The static array \<open>keptNodelistInfos\<close> is the list of its \<open>MAX_NODELIST_INFOS\<close>
  slots; \<open>initial_cache\<close> is the array after
  \<open>memset(keptNodelistInfos, 0x0, sizeof(keptNodelistInfos))\<close>.
\<close>

definition initial_cache :: "zlInfo_t list" where
  "initial_cache = replicate MAX_NODELIST_INFOS empty_slot"


text \<open>
  \<open>db_hdf5_fullname\<close>: the absolute name of \<open>name\<close> in the current working group.
\<close>

definition db_hdf5_fullname :: "dbfile \<Rightarrow> string option \<Rightarrow> string" where
  "db_hdf5_fullname dbfile name =
     (case name of
        None \<Rightarrow> []
      | Some n \<Rightarrow>
          if n = [] then []
          else if hd n = CHR ''/'' then n
          else (if cwg_name dbfile \<noteq> ''/'' then cwg_name dbfile @ ''/'' else cwg_name dbfile) @ n)"









text \<open>
  \<open>AddMeshnameToNodelist\<close>: both names are resolved; the first slot of the file
  with this zonelist name and no mesh name gets the mesh name.
\<close>

fun AddMeshnameToNodelist_loop :: "nat \<Rightarrow> string \<Rightarrow> string \<Rightarrow> zlInfo_t list \<Rightarrow> zlInfo_t list" where
  "AddMeshnameToNodelist_loop fid fullzlname fullmname [] = []"
| "AddMeshnameToNodelist_loop fid fullzlname fullmname (e # es) =
     (if zl e \<noteq> None \<and> db5file e = Some fid \<and> zlname e \<noteq> None \<and> meshname e = None \<and>
         zlname e = Some fullzlname
      then e\<lparr>meshname := Some fullmname\<rparr> # es
      else e # AddMeshnameToNodelist_loop fid fullzlname fullmname es)"

definition buf_256 :: "string \<Rightarrow> c_fault + string" where
  "buf_256 s = (if length s < 256 then Inr s else Inl BufferOverflow)"

definition AddMeshnameToNodelist ::
  "dbfile \<Rightarrow> string option \<Rightarrow> string option \<Rightarrow> zlInfo_t list \<Rightarrow> c_fault + zlInfo_t list" where
  "AddMeshnameToNodelist dbfile zlnm meshnm cache =
     (case buf_256 (db_hdf5_fullname dbfile zlnm) of
        Inl f \<Rightarrow> Inl f
      | Inr fullzlname \<Rightarrow>
          (case buf_256 (db_hdf5_fullname dbfile meshnm) of
             Inl f \<Rightarrow> Inl f
           | Inr fullmname \<Rightarrow>
               Inr (AddMeshnameToNodelist_loop (file_id dbfile) fullzlname fullmname cache)))"

text \<open>
  \<open>FreeNodelists\<close>: all slots of a file, or all slots of a mesh name when the file
  is null, or every slot.  With a null file a relative mesh name sends
  \<open>db_hdf5_GetDir\<close> through the null pointer.
\<close>

definition FreeNodelists ::
  "dbfile option \<Rightarrow> string option \<Rightarrow> zlInfo_t list \<Rightarrow> c_fault + zlInfo_t list" where
  "FreeNodelists dbfile meshnm cache =
     (case dbfile of
        Some f \<Rightarrow>
          Inr (map (\<lambda>e. if zl e \<noteq> None \<and> db5file e = Some (file_id f) then empty_slot else e) cache)
      | None \<Rightarrow>
          (case meshnm of
             Some n \<Rightarrow>
               if n \<noteq> [] \<and> hd n \<noteq> CHR ''/'' then Inl NullDereference
               else if \<not> length n < 256 then Inl BufferOverflow
               else Inr (map (\<lambda>e. if zl e \<noteq> None \<and> meshname e \<noteq> None \<and> meshname e = Some n
                                   then empty_slot else e) cache)
           | None \<Rightarrow> Inr (map (\<lambda>e. if zl e \<noteq> None then empty_slot else e) cache)))"




subsection \<open>C strings\<close>

text \<open>
  A C string is a \<open>string\<close> without its terminator; a character array is the list
  of its bytes, terminator included, and is read up to the first NUL (or to its end).
\<close>

definition NUL :: char where
  "NUL = CHR 0x00"

definition c_str :: "string \<Rightarrow> string" where
  "c_str arr = takeWhile (\<lambda>c. c \<noteq> NUL) arr"

text \<open>\<open>strstr\<close>: the rest of the haystack from the first occurrence of the needle.\<close>

fun strstr :: "string \<Rightarrow> string \<Rightarrow> string option" where
  "strstr [] needle = (if needle = [] then Some [] else None)"
| "strstr (c # cs) needle =
     (if take (length needle) (c # cs) = needle then Some (c # cs) else strstr cs needle)"

text \<open>
  \<open>strncpy(dst, src, n)\<close>: the first \<open>n\<close> bytes of \<open>dst\<close> become the first \<open>n\<close>
  characters of \<open>src\<close>, padded with NUL when \<open>src\<close> is shorter; no terminator is
  written when it is not, and the rest of \<open>dst\<close> keeps what it held.
\<close>

definition strncpy :: "string \<Rightarrow> string \<Rightarrow> nat \<Rightarrow> string" where
  "strncpy dst src n = take n (src @ replicate n NUL) @ drop n dst"

definition isspace :: "char \<Rightarrow> bool" where
  "isspace c \<longleftrightarrow> c \<in> set [CHR '' '', CHR 0x09, CHR 0x0A, CHR 0x0B, CHR 0x0C, CHR 0x0D]"

definition isdigit :: "char \<Rightarrow> bool" where
  "isdigit c \<longleftrightarrow> c \<in> set ''0123456789''"

definition digit_val :: "char \<Rightarrow> int" where
  "digit_val c = int (of_char c) - 48"

fun digits_val :: "int \<Rightarrow> string \<Rightarrow> int" where
  "digits_val acc [] = acc"
| "digits_val acc (c # cs) = digits_val (10 * acc + digit_val c) cs"

text \<open>
  \<open>strtol(s, &check, 10)\<close> with a 64-bit \<open>long\<close>: white space, an optional sign,
  decimal digits; the value is clamped to the range of \<open>long\<close>.  The second
  component tells whether a number was converted (\<open>check != s\<close>).
\<close>

definition c_strtol :: "string \<Rightarrow> int \<times> bool" where
  "c_strtol s =
     (let s1 = dropWhile isspace s;
          neg = (s1 \<noteq> [] \<and> hd s1 = CHR ''-'');
          s2 = (if s1 \<noteq> [] \<and> (hd s1 = CHR ''-'' \<or> hd s1 = CHR ''+'') then tl s1 else s1);
          ds = takeWhile isdigit s2;
          v = (if neg then - digits_val 0 ds else digits_val 0 ds)
      in if ds = [] then (0, False)
         else (max (- (2 ^ 63)) (min (2 ^ 63 - 1) v), True))"

text \<open>The cast \<open>(int)\<close> of a \<open>long\<close> keeps the low 32 bits.\<close>

definition long_to_int :: "int \<Rightarrow> int" where
  "long_to_int v = sint (word_of_int v :: 32 word)"

subsection \<open>Errors, filters and the state of the driver\<close>

datatype silo_errno =
    E_NOERROR | E_BADARGS | E_CALLFAIL | E_NOTFOUND | E_NOMEM | E_COMPRESSION | E_CHECKSUM
  | E_INTERNAL

datatype filter_id =
    H5Z_FILTER_DEFLATE | H5Z_FILTER_SHUFFLE | H5Z_FILTER_FLETCHER32 | H5Z_FILTER_SZIP
  | DB_HDF5_HZIP_ID | DB_HDF5_FPZIP_ID

text \<open>The flags of a filter in a pipeline: the C value 0 makes the filter mandatory.\<close>

datatype h5z_flags = H5Z_FLAG_MANDATORY | H5Z_FLAG_OPTIONAL

datatype szip_mask = H5_SZIP_EC_OPTION_MASK | H5_SZIP_NN_OPTION_MASK

record h5_filter =
  filt_id :: filter_id
  filt_flags :: h5z_flags
  filt_cd_values :: "int list"

text \<open>A dataset creation property list: its chunk dimensions and its filter pipeline.\<close>

record dcpl =
  chunk_dims :: "hsize_t list option"
  pipeline :: "h5_filter list"

datatype hz_codec = HZM_CODEC_ZLIB | HZM_CODEC_BASE

text \<open>
  The parameter blocks a codec pointer can address: the two the driver owns and the
  two of the hzip library (\<open>hzm_codec_zlib\<close>, \<open>hzm_codec_base\<close>).
\<close>

datatype hz_block =
    db_hdf5_hzip_zlib_codec_params | db_hdf5_hzip_base_codec_params
  | hzm_codec_zlib | hzm_codec_base

datatype HZtype = hzUCHAR | hzUSHORT | hzINT | hzFLOAT | hzDOUBLE

record db_hdf5_fpzip_params_t =
  fpz_loss :: int
  fpz_isfp :: int
  fpz_dp :: int
  fpz_totsize1d :: int
  fpz_ndims :: int
  fpz_dims :: "int list"

text \<open>
  \<open>db_hdf5_hzip_params\<close>.  \<open>params\<close> points to the parameter block of one of the two
  codecs; the blocks hold the \<open>bits\<close> of their codec.
\<close>

record db_hdf5_hzip_params_t =
  hz_codec_sel :: hz_codec
  hz_params :: hz_block
  hz_iszl :: int
  hz_zlname :: "string option"
  hz_meshname :: "string option"
  hz_dbfile :: "dbfile option"
  hz_zlorigin :: int
  hz_isquad :: int
  hz_totsize1d :: int
  hz_ndims :: int
  hz_dims :: "int list"
  hz_hztype :: HZtype

datatype crprops_id = H5P_DEFAULT | P_ckcrprops_id

datatype rdprops_id = H5P_DEFAULT_XFER | P_ckrdprops_id

text \<open>
  The file-scope variables of the driver and the globals of the library it reads
  and writes: \<open>SILO_Globals\<close>, \<open>SILO_Compression\<close> (parameters, errmode,
  minratio), the property lists, the parameters of the two filters, the bits of the
  codec blocks, the nodelist cache, and the errors reported through \<open>db_perror\<close>
  (message, code, reporting function), oldest first.  \<open>P_ckcrprops\<close> is \<open>None\<close>
  while the handle is still -1.
\<close>

record 'f driver =
  silo_globals :: globals
  parameters :: string
  errmode :: int
  minratio :: 'f
  P_crprops :: crprops_id
  P_rdprops :: rdprops_id
  P_ckcrprops :: "dcpl option"
  fpzip_params :: db_hdf5_fpzip_params_t
  hzip_params :: db_hdf5_hzip_params_t
  codec_bits :: "hz_block \<Rightarrow> int"
  keptNodelistInfos :: "zlInfo_t list"
  errlog :: "(string \<times> silo_errno \<times> string) list"

definition COMPRESSION_ERRMODE_FALLBACK :: int where
  "COMPRESSION_ERRMODE_FALLBACK = 0"

definition COMPRESSION_ERRMODE_FAIL :: int where
  "COMPRESSION_ERRMODE_FAIL = 1"

definition ALLOW_MESH_COMPRESSION :: c_int where
  "ALLOW_MESH_COMPRESSION = 1"

text \<open>
  Modelled from the spec: \<open>db_perror\<close> is defined outside this file.  It records
  the error code with its context string for the caller and returns.
\<close>

definition db_perror :: "string \<Rightarrow> silo_errno \<Rightarrow> string \<Rightarrow> 'f driver \<Rightarrow> 'f driver" where
  "db_perror s errorno fname st = st\<lparr>errlog := errlog st @ [(s, errorno, fname)]\<rparr>"

text \<open>
  What the model takes from outside the driver: which calls into HDF5 and the C
  library fail for reasons of their own, how the driver was configured, what
  \<open>H5Zget_filter_info\<close> reports for szip (encoder, decoder), the bytes the local
  \<open>chararray[32]\<close> happens to hold on entry, the floating-point operations
  \<open>(float) strtod(s, &check)\<close>, \<open>mcr > 1.0\<close> and \<open>(int) (nbytes / minratio)\<close>, and
  whether \<open>char\<close> is a signed type.
\<close>

datatype h5call =
    Call_H5Pget_nfilters | Call_H5Pset_deflate | Call_H5Pset_szip | Call_H5Pset_filter
  | Call_H5Zget_filter_info | Call_H5Dget_space | Call_H5Dget_type | Call_malloc
  | Call_malloc_newbuf | Call_H5Screate_simple | Call_H5Dget_create_plist | Call_H5Dcreate
  | Call_H5Dopen | Call_H5Dwrite | Call_H5Acreate | Call_H5Aread | Call_H5Awrite

record 'f env =
  fails :: "h5call \<Rightarrow> bool"
  HAVE_HZIP :: bool
  HAVE_FPZIP :: bool
  HAVE_LIBZ :: bool
  H5_HAVE_FILTER_SZIP :: bool
  szip_encode_decode :: "bool \<times> bool"
  chararray_on_entry :: string
  strtod_float :: "string \<Rightarrow> 'f"
  float_gt_1 :: "'f \<Rightarrow> bool"
  bytes_over_ratio :: "nat \<Rightarrow> 'f \<Rightarrow> int"
  char_is_signed :: bool

subsection \<open>Configuring compression: db_hdf5_set_compression\<close>

text \<open>
  The calls that add a filter to a property list append it to the pipeline;
  \<open>H5Pset_deflate\<close> and \<open>H5Pset_szip\<close> add theirs as optional filters.
\<close>

definition H5Pset_filter :: "dcpl \<Rightarrow> filter_id \<Rightarrow> h5z_flags \<Rightarrow> int list \<Rightarrow> dcpl" where
  "H5Pset_filter pl fid flags cd =
     pl\<lparr>pipeline := pipeline pl @ [\<lparr>filt_id = fid, filt_flags = flags, filt_cd_values = cd\<rparr>]\<rparr>"

definition H5Pset_deflate :: "dcpl \<Rightarrow> int \<Rightarrow> dcpl" where
  "H5Pset_deflate pl level = H5Pset_filter pl H5Z_FILTER_DEFLATE H5Z_FLAG_OPTIONAL [level]"

definition szip_mask_value :: "szip_mask \<Rightarrow> int" where
  "szip_mask_value m = (case m of H5_SZIP_EC_OPTION_MASK \<Rightarrow> 4 | H5_SZIP_NN_OPTION_MASK \<Rightarrow> 32)"

definition H5Pset_szip :: "dcpl \<Rightarrow> szip_mask \<Rightarrow> int \<Rightarrow> dcpl" where
  "H5Pset_szip pl options_mask block =
     H5Pset_filter pl H5Z_FILTER_SZIP H5Z_FLAG_OPTIONAL [szip_mask_value options_mask, block]"

definition has_filter :: "dcpl \<Rightarrow> filter_id \<Rightarrow> bool" where
  "has_filter pl fid \<longleftrightarrow> fid \<in> set (map filt_id (pipeline pl))"

definition me_set_compression :: string where
  "me_set_compression = ''db_hdf5_set_compression''"

text \<open>
  The flags the two mesh-aware filters are registered with:
  \<open>SILO_Compression.errmode ? 0 : H5Z_FLAG_OPTIONAL\<close>.
\<close>

definition errmode_flags :: "int \<Rightarrow> h5z_flags" where
  "errmode_flags em = (if em \<noteq> 0 then H5Z_FLAG_MANDATORY else H5Z_FLAG_OPTIONAL)"

text \<open>
  The two blocks for the global parameters.  Each yields \<open>Inl\<close> of the state when
  the function reports the parameter string and returns -1, and otherwise the
  character array and the state it goes on with.
\<close>

definition set_errmode :: "string \<Rightarrow> 'f driver \<Rightarrow> 'f driver + (string \<times> 'f driver)" where
  "set_errmode chararray st =
     (case strstr (parameters st) ''ERRMODE='' of
        None \<Rightarrow> Inr (chararray, st)
      | Some ptr \<Rightarrow>
          (let chararray' = (strncpy chararray (drop 8 ptr) 4)[4 := NUL] in
           if c_str chararray' = ''FALL'' then
             Inr (chararray', st\<lparr>errmode := COMPRESSION_ERRMODE_FALLBACK\<rparr>)
           else if c_str chararray' = ''FAIL'' then
             Inr (chararray', st\<lparr>errmode := COMPRESSION_ERRMODE_FAIL\<rparr>)
           else Inl (db_perror (parameters st) E_COMPRESSION me_set_compression st)))"

definition set_minratio :: "'f env \<Rightarrow> string \<Rightarrow> 'f driver \<Rightarrow> 'f driver + (string \<times> 'f driver)" where
  "set_minratio env chararray st =
     (case strstr (parameters st) ''MINRATIO='' of
        None \<Rightarrow> Inr (chararray, st)
      | Some ptr \<Rightarrow>
          (let chararray' = strncpy chararray (drop 9 ptr) 5;
               mcr = strtod_float env (c_str chararray')
           in if float_gt_1 env mcr then Inr (chararray', st\<lparr>minratio := mcr\<rparr>)
              else Inl (db_perror (parameters st) E_COMPRESSION me_set_compression st)))"

text \<open>The branch \<open>METHOD=GZIP\<close>, with the property list \<open>pl\<close> that \<open>P_ckcrprops\<close> names.\<close>

definition select_gzip :: "'f env \<Rightarrow> bool \<Rightarrow> dcpl \<Rightarrow> string \<Rightarrow> 'f driver \<Rightarrow> int \<times> 'f driver" where
  "select_gzip env have_gzip pl chararray st =
     (if \<not> have_gzip then
        (case strstr (parameters st) ''LEVEL='' of
           Some ptr \<Rightarrow>
             (let chararray' = strncpy chararray (drop 6 ptr) 1;
                  level = long_to_int (fst (c_strtol (c_str chararray')));
                  converted = snd (c_strtol (c_str chararray'))
              in if converted \<and> level \<ge> 0 \<and> level \<le> 9 then
                   (if fails env Call_H5Pset_deflate
                    then (- 1, db_perror ''H5Pset_deflate'' E_CALLFAIL me_set_compression st)
                    else (0, st\<lparr>P_ckcrprops := Some (H5Pset_deflate pl level)\<rparr>))
                 else (- 1, db_perror (parameters st) E_COMPRESSION me_set_compression st))
         | None \<Rightarrow>
             (if fails env Call_H5Pset_deflate
              then (- 1, db_perror ''H5Pset_deflate'' E_CALLFAIL me_set_compression st)
              else (0, st\<lparr>P_ckcrprops := Some (H5Pset_deflate pl 1)\<rparr>)))
      else (0, st))"

text \<open>The branch \<open>METHOD=SZIP\<close>, compiled in with \<open>H5_HAVE_FILTER_SZIP\<close>.\<close>

definition select_szip :: "'f env \<Rightarrow> bool \<Rightarrow> dcpl \<Rightarrow> string \<Rightarrow> 'f driver \<Rightarrow> int \<times> 'f driver" where
  "select_szip env have_szip pl chararray st =
     (if \<not> have_szip then
        (if fails env Call_H5Zget_filter_info
         then (- 1, db_perror (parameters st) E_COMPRESSION me_set_compression st)
         else if szip_encode_decode env = (True, True) then
           (case strstr (parameters st) ''BLOCK='' of
              Some ptr \<Rightarrow>
                (let chararray' = strncpy chararray (drop 6 ptr) 2;
                     block = long_to_int (fst (c_strtol (c_str chararray')));
                     converted = snd (c_strtol (c_str chararray'))
                 in if converted \<and> block \<ge> 0 \<and> block \<le> 32 then
                      (let options_mask =
                             (if strstr (parameters st) ''MASK=EC'' \<noteq> None then H5_SZIP_EC_OPTION_MASK
                              else if strstr (parameters st) ''MASK=NN'' \<noteq> None then H5_SZIP_NN_OPTION_MASK
                              else H5_SZIP_NN_OPTION_MASK)
                       in if fails env Call_H5Pset_szip
                          then (- 1, db_perror ''H5Pset_szip'' E_CALLFAIL me_set_compression st)
                          else (0, st\<lparr>P_ckcrprops := Some (H5Pset_szip pl options_mask block)\<rparr>))
                    else (- 1, db_perror (parameters st) E_COMPRESSION me_set_compression st))
            | None \<Rightarrow>
                (if fails env Call_H5Pset_szip
                 then (- 1, db_perror ''H5Pset_szip'' E_CALLFAIL me_set_compression st)
                 else (0, st\<lparr>P_ckcrprops := Some (H5Pset_szip pl H5_SZIP_NN_OPTION_MASK 4)\<rparr>)))
         else (0, st))
      else (0, st))"

text \<open>
  The branch \<open>METHOD=HZIP\<close>, compiled in with \<open>HAVE_HZIP\<close>: the entropy codec,
  its bits, and the registration of the filter.
\<close>

definition hzip_codec :: "'f env \<Rightarrow> string \<Rightarrow> 'f driver \<Rightarrow> 'f driver + (string \<times> 'f driver)" where
  "hzip_codec env chararray st =
     (case strstr (parameters st) ''CODEC='' of
        None \<Rightarrow> Inr (chararray, st)
      | Some ptr \<Rightarrow>
          (let chararray' = (strncpy chararray (drop 6 ptr) 4)[4 := NUL] in
           if HAVE_LIBZ env \<and> c_str chararray' = ''zlib'' then
             Inr (chararray', st\<lparr>hzip_params := (hzip_params st)
                                   \<lparr>hz_codec_sel := HZM_CODEC_ZLIB, hz_params := hzm_codec_zlib\<rparr>\<rparr>)
           else if c_str chararray' = ''base'' then
             Inr (chararray', st\<lparr>hzip_params := (hzip_params st)
                                   \<lparr>hz_codec_sel := HZM_CODEC_BASE, hz_params := hzm_codec_base\<rparr>\<rparr>)
           else Inl (db_perror ''hzip codec not recongized'' E_COMPRESSION me_set_compression st)))"

definition hzip_bits :: "'f env \<Rightarrow> string \<Rightarrow> 'f driver \<Rightarrow> 'f driver + (string \<times> 'f driver)" where
  "hzip_bits env chararray st =
     (case strstr (parameters st) ''BITS='' of
        None \<Rightarrow> Inr (chararray, st)
      | Some ptr \<Rightarrow>
          (let chararray' = strncpy chararray (drop 5 ptr) 2;
               nbits = long_to_int (fst (c_strtol (c_str chararray')));
               converted = snd (c_strtol (c_str chararray'))
           in if converted \<and> nbits \<ge> 0 \<and> nbits \<le> 64 then
                (if HAVE_LIBZ env \<and> hz_codec_sel (hzip_params st) = HZM_CODEC_ZLIB then
                   Inr (chararray', st\<lparr>codec_bits := (codec_bits st)(hz_params (hzip_params st) := nbits)\<rparr>)
                 else if hz_codec_sel (hzip_params st) = HZM_CODEC_BASE then
                   Inr (chararray', st\<lparr>codec_bits := (codec_bits st)(hz_params (hzip_params st) := nbits)\<rparr>)
                 else Inr (chararray', st))
              else Inl (db_perror ''invalid nbits for hzip'' E_COMPRESSION me_set_compression st)))"

definition select_hzip ::
  "'f env \<Rightarrow> bool \<Rightarrow> c_int \<Rightarrow> dcpl \<Rightarrow> string \<Rightarrow> 'f driver \<Rightarrow> int \<times> 'f driver" where
  "select_hzip env have_hzip flags pl chararray st =
     (if \<not> have_hzip \<and> flags AND ALLOW_MESH_COMPRESSION \<noteq> 0 then
        (case hzip_codec env chararray st of
           Inl st' \<Rightarrow> (- 1, st')
         | Inr (chararray', st') \<Rightarrow>
             (case hzip_bits env chararray' st' of
                Inl st'' \<Rightarrow> (- 1, st'')
              | Inr (chararray'', st'') \<Rightarrow>
                  if fails env Call_H5Pset_filter
                  then (- 1, db_perror ''hzip filter setup'' E_CALLFAIL me_set_compression st'')
                  else (0, st''\<lparr>P_ckcrprops :=
                              Some (H5Pset_filter pl DB_HDF5_HZIP_ID (errmode_flags (errmode st'')) [])\<rparr>)))
      else (0, st))"

text \<open>The branch \<open>METHOD=FPZIP\<close>, compiled in with \<open>HAVE_FPZIP\<close>.\<close>

definition fpzip_loss :: "string \<Rightarrow> 'f driver \<Rightarrow> 'f driver + (string \<times> 'f driver)" where
  "fpzip_loss chararray st =
     (case strstr (parameters st) ''LOSS='' of
        None \<Rightarrow> Inr (chararray, st)
      | Some ptr \<Rightarrow>
          (let chararray' = strncpy chararray (drop 5 ptr) 2;
               prec = long_to_int (fst (c_strtol (c_str chararray')));
               converted = snd (c_strtol (c_str chararray'))
           in if converted \<and> prec \<ge> 0 \<and> prec \<le> 3 then
                Inr (chararray', st\<lparr>fpzip_params := (fpzip_params st)\<lparr>fpz_loss := prec\<rparr>\<rparr>)
              else Inl (db_perror (parameters st) E_COMPRESSION me_set_compression st)))"

definition select_fpzip :: "'f env \<Rightarrow> bool \<Rightarrow> dcpl \<Rightarrow> string \<Rightarrow> 'f driver \<Rightarrow> int \<times> 'f driver" where
  "select_fpzip env have_fpzip pl chararray st =
     (if \<not> have_fpzip then
        (case fpzip_loss chararray st of
           Inl st' \<Rightarrow> (- 1, st')
         | Inr (chararray', st') \<Rightarrow>
             if fails env Call_H5Pset_filter
             then (- 1, db_perror ''H5Pset_filter'' E_CALLFAIL me_set_compression st')
             else (0, st'\<lparr>P_ckcrprops :=
                         Some (H5Pset_filter pl DB_HDF5_FPZIP_ID (errmode_flags (errmode st')) [])\<rparr>))
      else (0, st))"

text \<open>
  \<open>db_hdf5_set_compression\<close>: the filters already in \<open>P_ckcrprops\<close>, the global
  parameters, then the first method the parameter string names.  It returns 0 or -1
  and the state it leaves.
\<close>

definition db_hdf5_set_compression :: "'f env \<Rightarrow> c_int \<Rightarrow> 'f driver \<Rightarrow> int \<times> 'f driver" where
  "db_hdf5_set_compression env flags st =
     (case P_ckcrprops st of
        None \<Rightarrow> (- 1, db_perror ''H5Pget_nfilters'' E_CALLFAIL me_set_compression st)
      | Some pl \<Rightarrow>
          if fails env Call_H5Pget_nfilters
          then (- 1, db_perror ''H5Pget_nfilters'' E_CALLFAIL me_set_compression st)
          else
            (case set_errmode (chararray_on_entry env) st of
               Inl st1 \<Rightarrow> (- 1, st1)
             | Inr (chararray1, st1) \<Rightarrow>
                 (case set_minratio env chararray1 st1 of
                    Inl st2 \<Rightarrow> (- 1, st2)
                  | Inr (chararray2, st2) \<Rightarrow>
                      if strstr (parameters st2) ''METHOD=GZIP'' \<noteq> None then
                        select_gzip env (has_filter pl H5Z_FILTER_DEFLATE) pl chararray2 st2
                      else if H5_HAVE_FILTER_SZIP env \<and> strstr (parameters st2) ''METHOD=SZIP'' \<noteq> None then
                        select_szip env (has_filter pl H5Z_FILTER_SZIP) pl chararray2 st2
                      else if HAVE_HZIP env \<and> strstr (parameters st2) ''METHOD=HZIP'' \<noteq> None then
                        select_hzip env (has_filter pl DB_HDF5_HZIP_ID) flags pl chararray2 st2
                      else if HAVE_FPZIP env \<and> strstr (parameters st2) ''METHOD=FPZIP'' \<noteq> None then
                        select_fpzip env (has_filter pl DB_HDF5_FPZIP_ID) pl chararray2 st2
                      else (- 1, db_perror (parameters st2) E_COMPRESSION me_set_compression st2))))"

subsection \<open>The fpzip filter: db_hdf5_fpzip_filter_op\<close>




subsection \<open>The malformed parameter strings\<close>











subsection \<open>Datasets and reading them: db_hdf5_comprd\<close>

text \<open>
  An array in memory: its native type and its elements.  Integer elements are kept
  as their values.
\<close>

datatype ('f, 'd) buffer =
    Integers native_type "int list"
  | Floats "'f list"
  | Doubles "'d list"

fun buffer_type :: "('f, 'd) buffer \<Rightarrow> native_type" where
  "buffer_type (Integers m xs) = m"
| "buffer_type (Floats xs) = H5T_NATIVE_FLOAT"
| "buffer_type (Doubles xs) = H5T_NATIVE_DOUBLE"

text \<open>The casts \<open>(float) i\<close> of an integer and \<open>(float) d\<close> of a double.\<close>

record ('f, 'd) casts =
  int_to_float :: "int \<Rightarrow> 'f"
  double_to_float :: "'d \<Rightarrow> 'f"

text \<open>
  A dataset of the file: its stored datatype, the values it holds as a read in the
  natural memory type of that datatype delivers them, the names of the filters in
  its creation property list, and the descriptions on the error stack of HDF5 after
  a failed read of the data, in the order \<open>H5Ewalk\<close> visits them (\<open>None\<close> when the
  read succeeds).
\<close>

record ('f, 'd) dataset =
  ds_type :: h5type
  ds_values :: "('f, 'd) buffer"
  ds_filter_names :: "string list"
  ds_read_error :: "string list option"

text \<open>
  The file as the driver reads it: its datasets by absolute name.
\<close>

type_synonym ('f, 'd) h5file = "string \<Rightarrow> ('f, 'd) dataset option"

text \<open>
  A dataset whose values have the natural memory type of its stored datatype;
  integer elements have one of the four integer types.
\<close>

fun buffer_ok :: "('f, 'd) buffer \<Rightarrow> bool" where
  "buffer_ok (Integers m xs) = (m \<noteq> H5T_NATIVE_FLOAT \<and> m \<noteq> H5T_NATIVE_DOUBLE)"
| "buffer_ok b = True"

definition dataset_ok :: "c_sizes \<Rightarrow> ('f, 'd) dataset \<Rightarrow> bool" where
  "dataset_ok sz d \<longleftrightarrow>
     buffer_ok (ds_values d) \<and> hdf2hdf_type sz (ds_type d) = Some (buffer_type (ds_values d))"

text \<open>
  \<open>H5Dopen(dbfile->cwg, name)\<close>: the dataset under the name, taken from the current
  working group unless the name is absolute.
\<close>

definition H5Dopen :: "('f, 'd) h5file \<Rightarrow> dbfile \<Rightarrow> string \<Rightarrow> ('f, 'd) dataset option" where
  "H5Dopen file dbfile name = file (db_hdf5_fullname dbfile (Some name))"

text \<open>
  \<open>H5Dread\<close> of the whole dataset into memory of the type \<open>mtype\<close>: HDF5 converts
  the stored values to the memory type.  The driver asks for the natural memory
  type, or for \<open>float\<close> where that type is \<open>double\<close>; HDF5 then casts each element.
  Other conversions do not arise for a dataset that is \<open>dataset_ok\<close>; the model has
  them fail, as it has a read with the invalid type -1 (\<open>None\<close>), and the error
  stack then mentions no filter.  A failed read returns its error stack.
\<close>

definition H5Dread ::
  "('f, 'd) casts \<Rightarrow> ('f, 'd) dataset \<Rightarrow> native_type option \<Rightarrow> string list + ('f, 'd) buffer" where
  "H5Dread cv d mtype =
     (case mtype of
        None \<Rightarrow> Inl []
      | Some m \<Rightarrow>
          (case ds_read_error d of
             Some stack \<Rightarrow> Inl stack
           | None \<Rightarrow>
               if buffer_type (ds_values d) = m then Inr (ds_values d)
               else
                 (case ds_values d of
                    Doubles xs \<Rightarrow>
                      if m = H5T_NATIVE_FLOAT then Inr (Floats (map (double_to_float cv) xs))
                      else Inl []
                  | _ \<Rightarrow> Inl [])))"

text \<open>
  \<open>silo_walk_cb\<close> on one entry of the error stack, and \<open>hdf5_to_silo_error\<close>, which
  walks the stack.
\<close>

definition silo_walk_cb :: "string \<Rightarrow> silo_errno \<Rightarrow> silo_errno" where
  "silo_walk_cb desc code =
     (let code1 = (if strstr desc ''letcher32'' \<noteq> None then E_CHECKSUM else code);
          code2 = (if strstr desc ''zip'' \<noteq> None then E_COMPRESSION else code1)
      in if strstr desc ''Lindstrom-'' \<noteq> None then E_COMPRESSION else code2)"

definition hdf5_to_silo_error :: "string list \<Rightarrow> string \<Rightarrow> string \<Rightarrow> 'f driver \<Rightarrow> 'f driver" where
  "hdf5_to_silo_error stack vname fname st =
     (let silo_error_code = fold silo_walk_cb stack E_NOERROR
      in db_perror vname (if silo_error_code = E_NOERROR then E_CALLFAIL else silo_error_code)
           fname st)"

text \<open>
  The scalar loops of \<open>db_hdf5_comprd\<close>.  Bytes read as \<open>H5T_NATIVE_UCHAR\<close> are cast
  through \<open>char\<close>, which is signed or not with the platform.  For a buffer that is
  none of the four integer types the new buffer is returned as \<open>malloc\<close> left it.
\<close>

definition char_value :: "bool \<Rightarrow> int \<Rightarrow> int" where
  "char_value char_signed v = (if char_signed \<and> v \<ge> 128 then v - 256 else v)"

fun convert_to_float :: "'f env \<Rightarrow> ('f, 'd) casts \<Rightarrow> ('f, 'd) buffer \<Rightarrow> c_fault + ('f, 'd) buffer" where
  "convert_to_float env cv (Integers H5T_NATIVE_UCHAR xs) =
     Inr (Floats (map (\<lambda>v. int_to_float cv (char_value (char_is_signed env) v)) xs))"
| "convert_to_float env cv (Integers H5T_NATIVE_SHORT xs) = Inr (Floats (map (int_to_float cv) xs))"
| "convert_to_float env cv (Integers H5T_NATIVE_INT xs) = Inr (Floats (map (int_to_float cv) xs))"
| "convert_to_float env cv (Integers H5T_NATIVE_LONG xs) = Inr (Floats (map (int_to_float cv) xs))"
| "convert_to_float env cv b = Inl UninitializedMemory"

text \<open>
  Modelled from the spec: \<open>PROTECT\<close>, \<open>CLEANUP\<close>, \<open>END_PROTECT\<close> and \<open>UNWIND\<close> are
  macros defined outside this file.  On \<open>UNWIND\<close> the clean-up block runs and the
  function goes on behind \<open>END_PROTECT\<close>, where it returns its value to the caller.
\<close>

definition me_comprd :: string where
  "me_comprd = ''db_hdf5_comprd''"

text \<open>
  \<open>db_hdf5_comprd\<close> returns the values read (\<open>None\<close> for the null pointer) and the
  state it leaves.  When the second \<open>malloc\<close> fails the clean-up block frees the
  buffer that the function then returns.
\<close>

definition db_hdf5_comprd ::
  "'f env \<Rightarrow> ('f, 'd) casts \<Rightarrow> c_sizes \<Rightarrow> ('f, 'd) h5file \<Rightarrow> dbfile \<Rightarrow> string option \<Rightarrow> int \<Rightarrow>
   'f driver \<Rightarrow> (c_fault + ('f, 'd) buffer option) \<times> 'f driver" where
  "db_hdf5_comprd env cv sz file dbfile name ignore_force_single st =
     (case name of
        None \<Rightarrow> (Inr None, st)
      | Some nm \<Rightarrow>
          if nm = [] then (Inr None, st)
          else
            (case H5Dopen file dbfile nm of
               None \<Rightarrow> (Inr None, db_perror nm E_NOTFOUND me_comprd st)
             | Some d \<Rightarrow>
                 if fails env Call_H5Dget_space \<or> fails env Call_H5Dget_type
                 then (Inr None, db_perror nm E_CALLFAIL me_comprd st)
                 else
                   (let forced = (force_single_g (silo_globals st) \<noteq> 0 \<and> ignore_force_single = 0);
                        natural = hdf2hdf_type sz (ds_type d);
                        mtype = (if natural = Some H5T_NATIVE_DOUBLE \<and> forced
                                 then Some H5T_NATIVE_FLOAT else natural)
                    in if fails env Call_malloc
                       then (Inr None, db_perror nm E_NOMEM me_comprd st)
                       else
                         (let st1 = st\<lparr>P_rdprops :=
                                        (if enableChecksums (silo_globals st) = 0
                                         then P_ckrdprops_id else H5P_DEFAULT_XFER)\<rparr>
                          in case H5Dread cv d mtype of
                               Inl stack \<Rightarrow> (Inr None, hdf5_to_silo_error stack nm me_comprd st1)
                             | Inr buf \<Rightarrow>
                                 if forced \<and> mtype \<noteq> Some H5T_NATIVE_FLOAT then
                                   (if fails env Call_malloc_newbuf
                                    then (Inl DanglingPointer, db_perror nm E_NOMEM me_comprd st1)
                                    else (case convert_to_float env cv buf of
                                            Inl f \<Rightarrow> (Inl f, st1)
                                          | Inr newbuf \<Rightarrow> (Inr (Some newbuf), st1)))
                                 else (Inr (Some buf), st1)))))"

subsection \<open>Writing datasets: db_hdf5_compname, db_hdf5_set_properties, db_hdf5_compwrz\<close>

text \<open>
  The calls that change the file, as the driver makes them: where a dataset is
  created (the current working group or the link group), under which name, with
  which file type, extent and creation properties (\<open>None\<close> for \<open>H5P_DEFAULT\<close>); the
  data written; the soft links made; the \<open>nlinks\<close> attribute of the link group.
\<close>

datatype h5loc = Loc_cwg | Loc_link

datatype ('f, 'd) h5op =
    Op_H5Acreate_nlinks
  | Op_H5Awrite_nlinks c_int
  | Op_H5Dcreate h5loc string h5type "hsize_t list" "dcpl option"
  | Op_H5Dwrite string native_type "('f, 'd) buffer"
  | Op_H5Glink string string

text \<open>
  The file as the driver writes it: the value of the \<open>nlinks\<close> attribute when the
  attribute exists, the calls made so far, oldest first, and the identifier that
  HDF5 hands out next.
\<close>

record ('f, 'd) h5out =
  nlinks_attr :: "c_int option"
  h5ops :: "('f, 'd) h5op list"
  next_hid :: nat

definition silom2hdfm_type :: "DBdatatype option \<Rightarrow> native_type option" where
  "silom2hdfm_type datatype =
     (case datatype of
        Some DB_INT \<Rightarrow> Some H5T_NATIVE_INT
      | Some DB_SHORT \<Rightarrow> Some H5T_NATIVE_SHORT
      | Some DB_LONG \<Rightarrow> Some H5T_NATIVE_LONG
      | Some DB_FLOAT \<Rightarrow> Some H5T_NATIVE_FLOAT
      | Some DB_DOUBLE \<Rightarrow> Some H5T_NATIVE_DOUBLE
      | Some DB_CHAR \<Rightarrow> Some H5T_NATIVE_UCHAR
      | None \<Rightarrow> None)"

text \<open>
  \<open>silof2hdff_type\<close> reads the file types \<open>T_int\<close>, \<open>T_short\<close>, ... of the handle;
  \<open>None\<close> stands for a \<open>datatype\<close> that is none of the six kinds.
\<close>

definition silof2hdff_type :: "(DBdatatype \<Rightarrow> h5type) \<Rightarrow> DBdatatype option \<Rightarrow> h5type option" where
  "silof2hdff_type T datatype = map_option T datatype"

text \<open>\<open>sprintf(name, "#%06d", nlinks)\<close>.\<close>

fun decimal :: "nat \<Rightarrow> string" where
  "decimal n = (if n < 10 then [char_of (48 + n)] else decimal (n div 10) @ [char_of (48 + n mod 10)])"

definition sprintf_06d :: "int \<Rightarrow> string" where
  "sprintf_06d n =
     (if n < 0
      then CHR ''-'' # replicate (5 - length (decimal (nat (- n)))) (CHR ''0'') @ decimal (nat (- n))
      else replicate (6 - length (decimal (nat n))) (CHR ''0'') @ decimal (nat n))"

definition me_compname :: string where
  "me_compname = ''db_hdf5_compname''"

text \<open>
  \<open>db_hdf5_compname\<close> always returns 0; the model returns what it wrote at the end
  of the name (\<open>None\<close> when it wrote nothing) and the states.  An attribute that
  was created and never written reads as zero.
\<close>

definition db_hdf5_compname ::
  "'f env \<Rightarrow> 'f driver \<Rightarrow> ('f, 'd) h5out \<Rightarrow> string option \<times> 'f driver \<times> ('f, 'd) h5out" where
  "db_hdf5_compname env st out =
     (if nlinks_attr out = None \<and> fails env Call_H5Acreate
      then (None, db_perror ''nlinks attribute'' E_CALLFAIL me_compname st, out)
      else
        (let out1 = (case nlinks_attr out of
                       None \<Rightarrow> out\<lparr>nlinks_attr := Some 0, h5ops := h5ops out @ [Op_H5Acreate_nlinks]\<rparr>
                     | Some v \<Rightarrow> out);
             nlinks = (case nlinks_attr out1 of None \<Rightarrow> 0 | Some v \<Rightarrow> v) + 1
         in if fails env Call_H5Aread
            then (None, db_perror ''nlinks attribute'' E_CALLFAIL me_compname st, out1)
            else if fails env Call_H5Awrite
            then (None, db_perror ''nlinks attribute'' E_CALLFAIL me_compname st, out1)
            else (Some (CHR ''#'' # sprintf_06d (sint nlinks)), st,
                  out1\<lparr>nlinks_attr := Some nlinks,
                       h5ops := h5ops out1 @ [Op_H5Awrite_nlinks nlinks]\<rparr>)))"

definition me_set_properties :: string where
  "me_set_properties = ''db_hdf5_set_properties''"

definition H5Pset_chunk :: "hsize_t list \<Rightarrow> 'f driver \<Rightarrow> 'f driver" where
  "H5Pset_chunk dims st =
     st\<lparr>P_ckcrprops := map_option (\<lambda>pl. pl\<lparr>chunk_dims := Some dims\<rparr>) (P_ckcrprops st)\<rparr>"

definition db_hdf5_set_properties :: "'f env \<Rightarrow> hsize_t list \<Rightarrow> 'f driver \<Rightarrow> int \<times> 'f driver" where
  "db_hdf5_set_properties env dims st =
     (let st0 = st\<lparr>P_crprops := H5P_DEFAULT\<rparr>;
          checksums = (enableChecksums (silo_globals st) \<noteq> 0);
          compression = (enableCompression (silo_globals st) \<noteq> 0)
      in if checksums \<and> \<not> compression then (0, (H5Pset_chunk dims st0)\<lparr>P_crprops := P_ckcrprops_id\<rparr>)
         else if checksums \<and> compression then
           (case db_hdf5_set_compression env 0 (H5Pset_chunk dims st0) of
              (r, st1) \<Rightarrow>
                if r < 0 then (- 1, db_perror ''db_hdf5_set_compression'' E_CALLFAIL me_set_properties st1)
                else (0, st1\<lparr>P_crprops := P_ckcrprops_id\<rparr>))
         else if compression then
           (case db_hdf5_set_compression env 0 (H5Pset_chunk dims st0) of
              (r, st1) \<Rightarrow>
                if r < 0 then (- 1, db_perror ''db_hdf5_set_compression'' E_CALLFAIL me_set_properties st1)
                else (0, st1\<lparr>P_crprops := P_ckcrprops_id\<rparr>))
         else (0, st0))"

definition me_compwr :: string where
  "me_compwr = ''db_hdf5_compwr''"

definition LINKGRP :: string where
  "LINKGRP = ''/.silo/''"

text \<open>The loop \<open>for (i=0, nels=1; i<rank; i++) nels *= _size[i]\<close>, in \<open>int\<close> arithmetic.\<close>

definition compwrz_nels :: "c_int \<Rightarrow> (nat \<Rightarrow> c_int) \<Rightarrow> c_int" where
  "compwrz_nels rank sizes = fold (\<lambda>i nels. nels * sizes i) [0 ..< nat (sint rank)] 1"

text \<open>The three scalars that are created in the current working group and may be overwritten.\<close>

definition cycle_or_time :: "string \<Rightarrow> DBdatatype option \<Rightarrow> c_int \<Rightarrow> (nat \<Rightarrow> c_int) \<Rightarrow> bool" where
  "cycle_or_time name dtype rank sizes \<longleftrightarrow>
     (name = ''time'' \<and> dtype = Some DB_FLOAT \<and> rank = 1 \<and> sizes 0 = 1) \<or>
     (name = ''dtime'' \<and> dtype = Some DB_DOUBLE \<and> rank = 1 \<and> sizes 0 = 1) \<or>
     (name = ''cycle'' \<and> dtype = Some DB_INT \<and> rank = 1 \<and> sizes 0 = 1)"

text \<open>The property list the handle \<open>P_crprops\<close> names; \<open>None\<close> for \<open>H5P_DEFAULT\<close>.\<close>

definition crprops_of :: "'f driver \<Rightarrow> dcpl option" where
  "crprops_of st = (case P_crprops st of H5P_DEFAULT \<Rightarrow> None | P_ckcrprops_id \<Rightarrow> P_ckcrprops st)"

text \<open>
  The loop that ends \<open>db_hdf5_compwrz\<close>: when the pipeline of \<open>P_crprops\<close> has the
  hzip filter, \<open>H5Premove_filter\<close> takes it out.
\<close>

fun H5Premove_filter :: "filter_id \<Rightarrow> h5_filter list \<Rightarrow> h5_filter list" where
  "H5Premove_filter fid [] = []"
| "H5Premove_filter fid (f # fs) = (if filt_id f = fid then fs else f # H5Premove_filter fid fs)"

definition remove_hzip_filter :: "'f driver \<Rightarrow> 'f driver" where
  "remove_hzip_filter st =
     (case P_crprops st of
        H5P_DEFAULT \<Rightarrow> st
      | P_ckcrprops_id \<Rightarrow>
          st\<lparr>P_ckcrprops :=
               map_option (\<lambda>pl. pl\<lparr>pipeline := H5Premove_filter DB_HDF5_HZIP_ID (pipeline pl)\<rparr>)
                 (P_ckcrprops st)\<rparr>)"

text \<open>
  The result of \<open>db_hdf5_compwrz\<close>: the value returned, the name left in the
  buffer \<open>name\<close>, and the states of the driver and of the file.
\<close>

type_synonym ('f, 'd) compwr_result = "int \<times> string \<times> 'f driver \<times> ('f, 'd) h5out"

text \<open>From \<open>H5Dwrite\<close> to the end, with the dataset \<open>dset\<close> open.\<close>

definition compwrz_write ::
  "'f env \<Rightarrow> c_int \<Rightarrow> ('f, 'd) buffer option \<Rightarrow> string \<Rightarrow> native_type \<Rightarrow> int \<Rightarrow>
   'f driver \<Rightarrow> ('f, 'd) h5out \<Rightarrow> ('f, 'd) compwr_result" where
  "compwrz_write env compressionFlags buf name mtype dset st out =
     (let done = (if enableCompression (silo_globals st) \<noteq> 0 \<and> compressionFlags \<noteq> 0
                  then remove_hzip_filter st else st)
      in case buf of
           None \<Rightarrow> (dset, name, done, out)
         | Some b \<Rightarrow>
             if fails env Call_H5Dwrite then (dset, name, db_perror name E_CALLFAIL me_compwr st, out)
             else (dset, name, done, out\<lparr>h5ops := h5ops out @ [Op_H5Dwrite name mtype b]\<rparr>))"

text \<open>The creation of the dataset, in the current working group or in the link group.\<close>

definition compwrz_create ::
  "'f env \<Rightarrow> DBdatatype option \<Rightarrow> c_int \<Rightarrow> (nat \<Rightarrow> c_int) \<Rightarrow> hsize_t list \<Rightarrow>
   ('f, 'd) buffer option \<Rightarrow> string \<Rightarrow> string option \<Rightarrow> c_int \<Rightarrow> native_type \<Rightarrow> h5type \<Rightarrow>
   'f driver \<Rightarrow> ('f, 'd) h5out \<Rightarrow> ('f, 'd) compwr_result" where
  "compwrz_create env dtype rank sizes dims buf name fname compressionFlags mtype ftype st out =
     (let dset = int (next_hid out);
          opened = out\<lparr>next_hid := Suc (next_hid out)\<rparr>
      in if cycle_or_time name dtype rank sizes then
           (if fails env Call_H5Dcreate then
              (if fails env Call_H5Dopen
               then (- 1, name, db_perror name E_CALLFAIL me_compwr st, out)
               else compwrz_write env compressionFlags buf name mtype dset st opened)
            else compwrz_write env compressionFlags buf name mtype dset st
                   (opened\<lparr>h5ops := h5ops out @ [Op_H5Dcreate Loc_cwg name ftype dims (crprops_of st)]\<rparr>))
         else if fails env Call_H5Dcreate
         then (- 1, name, db_perror name E_CALLFAIL me_compwr st, out)
         else compwrz_write env compressionFlags buf name mtype dset st
                (opened\<lparr>h5ops := h5ops out @ [Op_H5Dcreate Loc_link name ftype dims (crprops_of st)] @
                    (case fname of
                       None \<Rightarrow> []
                     | Some fn \<Rightarrow>
                         if enableFriendlyHDF5Names (silo_globals st) \<noteq> 0
                         then [Op_H5Glink name fn] else [])\<rparr>))"

text \<open>
  \<open>db_hdf5_compwrz\<close>.  \<open>name\<close> is the string in the caller's buffer, \<open>sizes\<close> the
  memory \<open>_size\<close> addresses, \<open>buf\<close> the data or \<open>None\<close> for the null pointer,
  \<open>T\<close> the file types of the handle.
\<close>

definition db_hdf5_compwrz ::
  "'f env \<Rightarrow> (DBdatatype \<Rightarrow> h5type) \<Rightarrow> dbfile \<Rightarrow> DBdatatype option \<Rightarrow> c_int \<Rightarrow> (nat \<Rightarrow> c_int) \<Rightarrow>
   ('f, 'd) buffer option \<Rightarrow> string \<Rightarrow> string option \<Rightarrow> c_int \<Rightarrow>
   'f driver \<Rightarrow> ('f, 'd) h5out \<Rightarrow> c_fault + ('f, 'd) compwr_result" where
  "db_hdf5_compwrz env T dbfile dtype rank_in sizes buf name fname compressionFlags st out =
     (let alloc = (sint rank_in < 0);
          rank = (if alloc then - rank_in else rank_in)
      in if (buf = None \<or> compwrz_nels rank sizes = 0) \<and> \<not> alloc then Inr (0, [], st, out)
         else
           (case (if name = []
                  then (case db_hdf5_compname env st out of
                          (written, st1, out1) \<Rightarrow>
                            (LINKGRP @ (case written of None \<Rightarrow> [] | Some s \<Rightarrow> s), st1, out1))
                  else (name, st, out)) of
              (name1, st1, out1) \<Rightarrow>
                (case silom2hdfm_type dtype of
                   None \<Rightarrow> Inr (- 1, name1, db_perror name1 E_CALLFAIL me_compwr st1, out1)
                 | Some mtype \<Rightarrow>
                     (case silof2hdff_type T dtype of
                        None \<Rightarrow> Inr (- 1, name1, db_perror name1 E_CALLFAIL me_compwr st1, out1)
                      | Some ftype \<Rightarrow>
                          if \<not> (0 < sint rank \<and> sint rank \<le> 8) then Inl AssertionFailed
                          else
                            (let dims = map (\<lambda>i. int_to_hsize (sizes i)) [0 ..< nat (sint rank)]
                             in if fails env Call_H5Screate_simple
                                then Inr (- 1, name1, db_perror name1 E_CALLFAIL me_compwr st1, out1)
                                else
                                  (case db_hdf5_set_properties env dims st1 of
                                     (r2, st2) \<Rightarrow>
                                       if r2 < 0
                                       then Inr (- 1, name1,
                                                 db_perror ''db_hdf5_set_properties'' E_CALLFAIL me_compwr st2,
                                                 out1)
                                       else
                                         (case (if enableCompression (silo_globals st2) \<noteq> 0 \<and>
                                                   compressionFlags \<noteq> 0
                                                then db_hdf5_set_compression env compressionFlags st2
                                                else (0, st2)) of
                                            (r3, st3) \<Rightarrow>
                                              if r3 < 0
                                              then Inr (- 1, name1,
                                                        db_perror ''db_hdf5_set_compression'' E_CALLFAIL
                                                          me_compwr st3,
                                                        out1)
                                              else Inr (compwrz_create env dtype rank sizes dims buf name1
                                                          fname compressionFlags mtype ftype st3 out1))))))))"

text \<open>
  The total element count of a write: the product of the \<open>rank\<close> extents, as integers.
\<close>

definition total_elements :: "c_int \<Rightarrow> (nat \<Rightarrow> c_int) \<Rightarrow> int" where
  "total_elements rank sizes = prod_list (map (\<lambda>i. sint (sizes i)) [0 ..< nat (sint rank)])"

subsection \<open>Reading compressed variables: db_hdf5_compckz, PrepareForUcdvarDecompression\<close>

definition me_compckz :: string where
  "me_compckz = ''db_hdf5_compzkz''"

text \<open>
  \<open>db_hdf5_compckz\<close>: 1 when a filter of the dataset has \<open>Lindstrom-hzip\<close> in its
  name, read into a buffer of 256 bytes; 0 otherwise, also after an error.
\<close>

definition db_hdf5_compckz ::
  "'f env \<Rightarrow> ('f, 'd) h5file \<Rightarrow> dbfile \<Rightarrow> string option \<Rightarrow> 'f driver \<Rightarrow> int \<times> 'f driver" where
  "db_hdf5_compckz env file dbfile name st =
     (case name of
        None \<Rightarrow> (0, st)
      | Some nm \<Rightarrow>
          if nm = [] then (0, st)
          else
            (case H5Dopen file dbfile nm of
               None \<Rightarrow> (0, db_perror nm E_NOTFOUND me_compckz st)
             | Some d \<Rightarrow>
                 if fails env Call_H5Dget_create_plist
                 then (0, db_perror nm E_CALLFAIL me_compckz st)
                 else if list_ex (\<lambda>filtername. strstr (take 255 filtername) ''Lindstrom-hzip'' \<noteq> None)
                           (ds_filter_names d)
                 then (1, st) else (0, st)))"






definition MAX_VARS :: nat where
  "MAX_VARS = 8"

text \<open>
  The loop \<open>for (i=0; i<nvals && !haveCompressed; i++)\<close> over the rows of
  \<open>valnames[MAX_VARS][256]\<close>; \<open>nvals\<close> comes from the file and is not checked
  against \<open>MAX_VARS\<close> beforehand.
\<close>

fun haveCompressed_loop ::
  "'f env \<Rightarrow> ('f, 'd) h5file \<Rightarrow> dbfile \<Rightarrow> string list \<Rightarrow> nat list \<Rightarrow> 'f driver \<Rightarrow>
   c_fault + (int \<times> 'f driver)" where
  "haveCompressed_loop env file dbfile valnames [] st = Inr (0, st)"
| "haveCompressed_loop env file dbfile valnames (i # is) st =
     (if \<not> i < length valnames then Inl BufferOverflow
      else
        (case db_hdf5_compckz env file dbfile (Some (valnames ! i)) st of
           (haveCompressed, st1) \<Rightarrow>
             if haveCompressed \<noteq> 0 then Inr (haveCompressed, st1)
             else haveCompressed_loop env file dbfile valnames is st1))"

definition haveCompressed ::
  "'f env \<Rightarrow> ('f, 'd) h5file \<Rightarrow> dbfile \<Rightarrow> string list \<Rightarrow> c_int \<Rightarrow> 'f driver \<Rightarrow>
   c_fault + (int \<times> 'f driver)" where
  "haveCompressed env file dbfile valnames nvals st =
     haveCompressed_loop env file dbfile valnames [0 ..< nat (sint nvals)] st"



subsection \<open>Example inputs\<close>

definition g0 :: globals where
  "g0 = \<lparr>force_single_g = 0, dataReadMask = UNIV, enableChecksums = 0, enableCompression = 0,
          enableFriendlyHDF5Names = 0\<rparr>"

definition f0 :: dbfile where
  "f0 = \<lparr>file_id = 1, cwg_name = ''/''\<rparr>"

text \<open>The memory an array of \<open>int\<close> occupies, read as zero beyond its end.\<close>

definition arr_of :: "c_int list \<Rightarrow> nat \<Rightarrow> c_int" where
  "arr_of xs i = (if i < length xs then xs ! i else 0)"

definition arr_of_hsize :: "hsize_t list \<Rightarrow> nat \<Rightarrow> hsize_t" where
  "arr_of_hsize xs i = (if i < length xs then xs ! i else 0)"

text \<open>An HDF5 whose dataspace calls succeed, on datasets without further structure.\<close>

definition h5_accepting :: "(unit, unit) h5_select" where
  "h5_accepting = \<lparr>H5S_MAX_RANK = 32, H5Dget_space = Some, H5Sselect_hyperslab = (\<lambda>sp hs. True)\<rparr>"






text \<open>
  A configuration with every codec compiled in and no failing call, over rational
  numbers in place of \<open>float\<close>; its \<open>strtod\<close> knows two numerals.
\<close>

definition example_strtod :: "string \<Rightarrow> rat" where
  "example_strtod s = (if s = ''2.5'' then 5 / 2 else if s = ''0.5'' then 1 / 2 else 0)"

definition env0 :: "rat env" where
  "env0 = \<lparr>fails = (\<lambda>c. False), HAVE_HZIP = True, HAVE_FPZIP = True, HAVE_LIBZ = True,
            H5_HAVE_FILTER_SZIP = True, szip_encode_decode = (True, True),
            chararray_on_entry = replicate 32 (CHR ''x''),
            strtod_float = example_strtod, float_gt_1 = (\<lambda>r. 1 < r),
            bytes_over_ratio = (\<lambda>n r. \<lfloor>of_nat n / r\<rfloor>), char_is_signed = True\<rparr>"

definition fpzip_params0 :: db_hdf5_fpzip_params_t where
  "fpzip_params0 = \<lparr>fpz_loss = 0, fpz_isfp = 0, fpz_dp = 0, fpz_totsize1d = 0, fpz_ndims = 0,
                      fpz_dims = replicate 10 0\<rparr>"

definition hzip_params0 :: db_hdf5_hzip_params_t where
  "hzip_params0 = \<lparr>hz_codec_sel = HZM_CODEC_ZLIB, hz_params = db_hdf5_hzip_zlib_codec_params,
                     hz_iszl = 0, hz_zlname = None, hz_meshname = None, hz_dbfile = None,
                     hz_zlorigin = 0, hz_isquad = 0, hz_totsize1d = 0, hz_ndims = 0,
                     hz_dims = replicate 10 0, hz_hztype = hzUCHAR\<rparr>"

text \<open>The state after \<open>db_hdf5_init\<close>, with a minimum ratio of 2.\<close>

definition driver0 :: "rat driver" where
  "driver0 = \<lparr>silo_globals = g0, parameters = [], errmode = 0, minratio = 2,
               P_crprops = H5P_DEFAULT, P_rdprops = H5P_DEFAULT_XFER,
               P_ckcrprops = Some \<lparr>chunk_dims = None, pipeline = []\<rparr>,
               fpzip_params = fpzip_params0, hzip_params = hzip_params0,
               codec_bits = (\<lambda>b. 12), keptNodelistInfos = initial_cache, errlog = []\<rparr>"



text \<open>
  Casts over rational numbers in place of \<open>float\<close> and \<open>double\<close>: the narrowing cast
  keeps three binary digits of the fraction.
\<close>

definition casts0 :: "(rat, rat) casts" where
  "casts0 = \<lparr>int_to_float = of_int, double_to_float = (\<lambda>d. of_int \<lfloor>d * 8\<rfloor> / 8)\<rparr>"

text \<open>A file with a dataset of three \<open>int\<close> and a dataset of two \<open>double\<close>.\<close>

definition int_dataset :: "(rat, rat) dataset" where
  "int_dataset = \<lparr>ds_type = \<lparr>H5Tget_class = H5T_INTEGER, H5Tget_size = 4\<rparr>,
                    ds_values = Integers H5T_NATIVE_INT [1, 2, 3],
                    ds_filter_names = [], ds_read_error = None\<rparr>"

definition double_dataset :: "(rat, rat) dataset" where
  "double_dataset = \<lparr>ds_type = \<lparr>H5Tget_class = H5T_FLOAT, H5Tget_size = 8\<rparr>,
                       ds_values = Doubles [1 / 3, 5 / 2],
                       ds_filter_names = [''Lindstrom-hzip''], ds_read_error = None\<rparr>"

definition file0 :: "(rat, rat) h5file" where
  "file0 name = (if name = ''/ints'' then Some int_dataset
                 else if name = ''/doubles'' then Some double_dataset else None)"

text \<open>The state after \<open>DBForceSingle(v)\<close>.\<close>

definition force_single :: "int \<Rightarrow> 'f driver \<Rightarrow> 'f driver" where
  "force_single v st = st\<lparr>silo_globals := (silo_globals st)\<lparr>force_single_g := v\<rparr>\<rparr>"

text \<open>The file types of a handle, and a file whose link group has made 41 names.\<close>

definition T0 :: "DBdatatype \<Rightarrow> h5type" where
  "T0 k = (case k of
             DB_INT \<Rightarrow> \<lparr>H5Tget_class = H5T_INTEGER, H5Tget_size = 4\<rparr>
           | DB_SHORT \<Rightarrow> \<lparr>H5Tget_class = H5T_INTEGER, H5Tget_size = 2\<rparr>
           | DB_LONG \<Rightarrow> \<lparr>H5Tget_class = H5T_INTEGER, H5Tget_size = 8\<rparr>
           | DB_FLOAT \<Rightarrow> \<lparr>H5Tget_class = H5T_FLOAT, H5Tget_size = 4\<rparr>
           | DB_DOUBLE \<Rightarrow> \<lparr>H5Tget_class = H5T_FLOAT, H5Tget_size = 8\<rparr>
           | DB_CHAR \<Rightarrow> \<lparr>H5Tget_class = H5T_INTEGER, H5Tget_size = 1\<rparr>)"

definition out0 :: "(rat, rat) h5out" where
  "out0 = \<lparr>nlinks_attr = Some 41, h5ops = [], next_hid = 7\<rparr>"





section \<open>Properties\<close>

subsection \<open>Type inference\<close>




subsection \<open>Hyperslab counts\<close>

lemma ceil_div_floor: "ceil_div a b = - ((- a) div b)"
proof -
  have "real_of_int a / real_of_int b = - (real_of_int (- a) / real_of_int b)" by simp
  then have "\<lceil>real_of_int a / real_of_int b\<rceil> = - \<lfloor>real_of_int (- a) / real_of_int b\<rfloor>"
    unfolding ceiling_def by simp
  then show ?thesis unfolding ceil_div_def by (simp only: floor_divide_of_int_eq)
qed

lemma ceil_div_pos: assumes "0 < b" shows "ceil_div a b = (a + b - 1) div b"
proof -
  define q where "q = (- a) div b"
  define r where "r = (- a) mod b"
  have r: "0 \<le> r" "r < b" using assms by (simp_all add: r_def)
  have "- a = b * q + r" by (simp add: q_def r_def)
  then have "a + b - 1 = b * (- q) + (b - 1 - r)" by (simp add: algebra_simps)
  moreover have "0 \<le> b - 1 - r" "b - 1 - r < b" using r by simp_all
  ultimately have "(a + b - 1) div b = - q" by (rule int_div_pos_eq)
  then show ?thesis by (simp add: ceil_div_floor q_def)
qed

lemma sint32_in_range: "- (2^31) \<le> k \<Longrightarrow> k < 2^31 \<Longrightarrow> sint (word_of_int k :: 32 word) = k"
  by (simp add: sint_sbintrunc' signed_take_bit_int_eq_self)

lemma sdiv_nonneg_pos: "0 \<le> a \<Longrightarrow> 0 < b \<Longrightarrow> (a::int) sdiv b = a div b"
  by (simp add: signed_divide_int_def sgn_if)

lemma hs_count_dim_ceiling: assumes s: "0 < sint s" and l: "0 \<le> sint l" and nov: "sint l + sint s - 1 < 2^31"
  shows "\<exists>q. hs_count_dim l s = Inr q \<and> uint q = ceil_div (sint l) (sint s)"
proof -
  let ?n = "sint l + sint s - 1"
  have s0: "s \<noteq> 0" using s by auto
  have n0: "0 \<le> ?n" using s l by simp
  have "l + s - 1 = word_of_int ?n" by simp
  then have sn: "sint (l + s - 1) = ?n"
    using sint32_in_range [of ?n] n0 nov by simp
  have qle: "?n div sint s \<le> ?n" using zdiv_mono2 [of ?n 1 "sint s"] n0 s by simp
  have q0: "0 \<le> ?n div sint s" using n0 s by (simp add: pos_imp_zdiv_nonneg_iff)
  have sq: "sint (word_of_int (?n div sint s) :: 32 word) = ?n div sint s"
    using sint32_in_range [of "?n div sint s"] q0 qle nov by simp
  have "uint (word_of_int (?n div sint s) :: 64 word) = ?n div sint s"
    using q0 qle nov by (simp add: uint_word_of_int take_bit_int_eq_self)
  then show ?thesis
    using s0 sn sq n0 s by (simp add: hs_count_dim_def c_div_def int_to_hsize_def sdiv_nonneg_pos ceil_div_pos)
qed

lemma hs_count_dim_total:
  "hs_count_dim l s =
     Inr (if s \<noteq> 0 then int_to_hsize (word_of_int (sint (l + s - 1) sdiv sint s)) else 1)"
  by (simp add: hs_count_dim_def c_div_def)

lemma build_fspace_loop_total:
  "\<exists>hs. build_fspace_loop n offset len stride = Inr hs \<and> length hs = n \<and>
     (\<forall>i<n. hs ! i = \<lparr>hs_offset = int_to_hsize (offset i), hs_stride = int_to_hsize (stride i),
                       hs_count = (if stride i \<noteq> 0
                                   then int_to_hsize (word_of_int (sint (len i + stride i - 1) sdiv sint (stride i)))
                                   else 1)\<rparr>)"
proof (induction n)
  case 0 show ?case by simp
next
  case (Suc n)
  then obtain hs where hs: "build_fspace_loop n offset len stride = Inr hs" "length hs = n"
    and el: "\<forall>i<n. hs ! i = \<lparr>hs_offset = int_to_hsize (offset i), hs_stride = int_to_hsize (stride i),
                       hs_count = (if stride i \<noteq> 0
                                   then int_to_hsize (word_of_int (sint (len i + stride i - 1) sdiv sint (stride i)))
                                   else 1)\<rparr>" by blast
  show ?case
    using hs el by (auto simp: hs_count_dim_total nth_append less_Suc_eq)
qed

lemma build_fspace_selection:
  assumes "build_fspace h5 dset ndims offset len stride size_out = Inr (Some fs, size')"
  shows "build_fspace_loop (nat ndims) offset len stride = Inr (selection fs) \<and>
         size' = map_option (write_size (selection fs)) size_out"
  using assms build_fspace_loop_total [of "nat ndims" offset len stride]
  by (auto simp: build_fspace_def Let_def split: if_splits option.splits)




text \<open>
  C8 (amended).  In a selection that \<open>build_fspace\<close> returns, a dimension whose stride
  is positive and whose length is not negative, with \<open>length + stride - 1\<close> in the
  range of \<open>int\<close>, has the count \<open>ceil(length/stride)\<close>, which is
  \<open>(length + stride - 1) / stride\<close>; the same count is written to \<open>size\<close>.
\<close>

theorem build_fspace_count_ceiling:
  assumes sel: "build_fspace h5 dset ndims offset len stride size_out = Inr (Some fs, size')"
    and i: "i < nat ndims"
    and pos: "0 < sint (stride i)" "0 \<le> sint (len i)"
    and nov: "sint (len i) + sint (stride i) - 1 < 2 ^ 31"
  shows "uint (hs_count (selection fs ! i)) = ceil_div (sint (len i)) (sint (stride i)) \<and>
         ceil_div (sint (len i)) (sint (stride i)) =
           (sint (len i) + sint (stride i) - 1) div sint (stride i) \<and>
         (\<forall>s. size_out = Some s \<longrightarrow> (\<exists>s'. size' = Some s' \<and> s' i = hs_count (selection fs ! i)))"
proof -
  from build_fspace_selection [OF sel]
  have loop: "build_fspace_loop (nat ndims) offset len stride = Inr (selection fs)"
    and sz: "size' = map_option (write_size (selection fs)) size_out" by simp_all
  from build_fspace_loop_total [of "nat ndims" offset len stride] loop i
  have len: "length (selection fs) = nat ndims"
    and cnt: "hs_count (selection fs ! i) =
         (if stride i \<noteq> 0
          then int_to_hsize (word_of_int (sint (len i + stride i - 1) sdiv sint (stride i)))
          else 1)" by auto
  from hs_count_dim_ceiling [OF pos nov] obtain q where
    q: "hs_count_dim (len i) (stride i) = Inr q" "uint q = ceil_div (sint (len i)) (sint (stride i))"
    by blast
  have "hs_count (selection fs ! i) = q"
    using q(1) cnt by (simp add: hs_count_dim_total)
  then have "uint (hs_count (selection fs ! i)) = ceil_div (sint (len i)) (sint (stride i))"
    using q(2) by simp
  moreover have "ceil_div (sint (len i)) (sint (stride i)) =
           (sint (len i) + sint (stride i) - 1) div sint (stride i)"
    using pos(1) by (rule ceil_div_pos)
  moreover have "\<forall>s. size_out = Some s \<longrightarrow> (\<exists>s'. size' = Some s' \<and> s' i = hs_count (selection fs ! i))"
    using sz len i by (auto simp: write_size_def)
  ultimately show ?thesis by blast
qed

theorem build_fspace_count_ceiling_witness:
  "build_fspace h5_accepting () 1 (arr_of [0]) (arr_of [7]) (arr_of [2]) (Some (arr_of_hsize []))
     = Inr (Some \<lparr>fspace_of = (), selection = [\<lparr>hs_offset = 0, hs_stride = 2, hs_count = 4\<rparr>]\<rparr>,
            Some (write_size [\<lparr>hs_offset = 0, hs_stride = 2, hs_count = 4\<rparr>] (arr_of_hsize []))) \<and>
   uint (4 :: hsize_t) = ceil_div 7 2"
proof -
  have r: "build_fspace h5_accepting () 1 (arr_of [0]) (arr_of [7]) (arr_of [2]) (Some (arr_of_hsize []))
     = Inr (Some \<lparr>fspace_of = (), selection = [\<lparr>hs_offset = 0, hs_stride = 2, hs_count = 4\<rparr>]\<rparr>,
            Some (write_size [\<lparr>hs_offset = 0, hs_stride = 2, hs_count = 4\<rparr>] (arr_of_hsize [])))"
    by (simp add: build_fspace_def h5_accepting_def arr_of_def hs_count_dim_def int_to_hsize_def
          c_div_def)
  have i: "(0::nat) < nat 1" by simp
  have p: "0 < sint (arr_of [2] 0)" "0 \<le> sint (arr_of [7] 0)"
    "sint (arr_of [7] 0) + sint (arr_of [2] 0) - 1 < 2 ^ 31"
    by (simp_all add: arr_of_def)
  from build_fspace_count_ceiling [OF r i p]
  have "uint (4 :: hsize_t) = ceil_div 7 2" by (simp add: arr_of_def)
  with r show ?thesis by simp
qed

text \<open>
  C8 as stated fails for a negative stride: with length 5 and stride -2 the count is
  the quotient 2 / -2 = -1 read as \<open>hsize_t\<close>, and the ceiling of 5 / -2 is -2.
\<close>

theorem hs_count_negative_stride_counterexample:
  "hs_count_dim 5 (- 2) = Inr (- 1) \<and>
   ceil_div (sint (5 :: c_int)) (sint (- 2 :: c_int)) = - 2 \<and>
   hs_count_dim 5 (- 2) \<noteq> Inr (int_to_hsize (word_of_int (ceil_div (sint (5 :: c_int)) (sint (- 2 :: c_int)))))"
  by (simp add: hs_count_dim_def c_div_def int_to_hsize_def ceil_div_def)

subsection \<open>The nodelist cache\<close>




































subsection \<open>Compression parameters\<close>












subsection \<open>The fpzip filter and the error mode\<close>














subsection \<open>Reading datasets under force-single\<close>

lemma convert_integers:
  "m \<noteq> H5T_NATIVE_FLOAT \<Longrightarrow> m \<noteq> H5T_NATIVE_DOUBLE \<Longrightarrow>
   convert_to_float env cv (Integers m xs) =
     Inr (Floats (map (\<lambda>v. int_to_float cv
            (if m = H5T_NATIVE_UCHAR then char_value (char_is_signed env) v else v)) xs))"
  by (cases m) simp_all

text \<open>
  C2 (amended).  A read of a dataset that exists and can be read, by
  \<open>db_hdf5_comprd\<close>: with force-single on and \<open>ignore_force_single\<close> not set, values
  whose natural memory type is \<open>double\<close> come back cast to \<open>float\<close> one by one, values
  whose natural type is \<open>float\<close> come back as they are, and values of the four integer
  types come back converted to \<open>float\<close> one by one (bytes through \<open>char\<close>).  With
  \<open>ignore_force_single\<close> set, or force-single off, the values come back unchanged in
  their natural memory type.
\<close>

theorem db_hdf5_comprd_force_single:
  assumes op: "H5Dopen file dbfile nm = Some d" and nm: "nm \<noteq> []"
    and ok: "dataset_ok sz d" and rd: "ds_read_error d = None"
    and calls: "\<not> fails env Call_H5Dget_space" "\<not> fails env Call_H5Dget_type"
      "\<not> fails env Call_malloc" "\<not> fails env Call_malloc_newbuf"
  shows "fst (db_hdf5_comprd env cv sz file dbfile (Some nm) ignore_force_single st) =
     Inr (Some (if force_single_g (silo_globals st) \<noteq> 0 \<and> ignore_force_single = 0
                then (case ds_values d of
                        Doubles xs \<Rightarrow> Floats (map (double_to_float cv) xs)
                      | Floats xs \<Rightarrow> Floats xs
                      | Integers m xs \<Rightarrow>
                          Floats (map (\<lambda>v. int_to_float cv
                            (if m = H5T_NATIVE_UCHAR then char_value (char_is_signed env) v else v)) xs))
                else ds_values d))"
proof (cases "ds_values d")
  case (Integers m xs)
  with ok have m: "m \<noteq> H5T_NATIVE_FLOAT" "m \<noteq> H5T_NATIVE_DOUBLE"
    and nat: "hdf2hdf_type sz (ds_type d) = Some m"
    by (simp_all add: dataset_ok_def)
  show ?thesis
    using op nm rd calls m nat Integers convert_integers [OF m, of env cv xs]
    by (simp add: db_hdf5_comprd_def Let_def H5Dread_def)
next
  case (Floats xs)
  with ok have nat: "hdf2hdf_type sz (ds_type d) = Some H5T_NATIVE_FLOAT"
    by (simp add: dataset_ok_def)
  show ?thesis
    using op nm rd calls nat Floats
    by (simp add: db_hdf5_comprd_def Let_def H5Dread_def)
next
  case (Doubles xs)
  with ok have nat: "hdf2hdf_type sz (ds_type d) = Some H5T_NATIVE_DOUBLE"
    by (simp add: dataset_ok_def)
  show ?thesis
    using op nm rd calls nat Doubles
    by (simp add: db_hdf5_comprd_def Let_def H5Dread_def)
qed

theorem db_hdf5_comprd_force_single_witness:
  "fst (db_hdf5_comprd env0 casts0 lp64 file0 f0 (Some ''doubles'') 0 (force_single 1 driver0)) =
     Inr (Some (Floats [1 / 4, 5 / 2])) \<and>
   fst (db_hdf5_comprd env0 casts0 lp64 file0 f0 (Some ''doubles'') 1 (force_single 1 driver0)) =
     Inr (Some (Doubles [1 / 3, 5 / 2]))"
proof -
  have op: "H5Dopen file0 f0 ''doubles'' = Some double_dataset"
    by (simp add: H5Dopen_def file0_def db_hdf5_fullname_def f0_def)
  have ok: "dataset_ok lp64 double_dataset"
    by (simp add: dataset_ok_def double_dataset_def hdf2hdf_type_def lp64_def)
  have rd: "ds_read_error double_dataset = None"
    by (simp add: double_dataset_def)
  have calls: "\<not> fails env0 c" for c
    by (simp add: env0_def)
  have g: "force_single_g (silo_globals (force_single 1 driver0)) = 1"
    by (simp add: force_single_def)
  have v: "ds_values double_dataset = Doubles [1 / 3, 5 / 2]"
    by (simp add: double_dataset_def)
  have c: "double_to_float casts0 (1 / 3) = 1 / 4" "double_to_float casts0 (5 / 2) = 5 / 2"
    by code_simp+
  show ?thesis
    using db_hdf5_comprd_force_single [OF op _ ok rd calls calls calls calls,
        of casts0 0 "force_single 1 driver0"]
      db_hdf5_comprd_force_single [OF op _ ok rd calls calls calls calls,
        of casts0 1 "force_single 1 driver0"]
    by (simp add: g v c)
qed

text \<open>
  C2 as stated fails: under force-single a default read of a dataset of \<open>int\<close>,
  whose natural memory type is not \<open>double\<close>, returns \<open>float\<close> values and not the
  stored integers.
\<close>

theorem db_hdf5_comprd_integer_counterexample:
  "force_single_g (silo_globals (force_single 1 driver0)) \<noteq> 0 \<and>
   H5Dopen file0 f0 ''ints'' = Some int_dataset \<and>
   hdf2hdf_type lp64 (ds_type int_dataset) = Some H5T_NATIVE_INT \<and>
   ds_values int_dataset = Integers H5T_NATIVE_INT [1, 2, 3] \<and>
   fst (db_hdf5_comprd env0 casts0 lp64 file0 f0 (Some ''ints'') 0 (force_single 1 driver0)) =
     Inr (Some (Floats [1, 2, 3])) \<and>
   fst (db_hdf5_comprd env0 casts0 lp64 file0 f0 (Some ''ints'') 0 (force_single 1 driver0)) \<noteq>
     Inr (Some (ds_values int_dataset))"
  by (simp add: force_single_def db_hdf5_comprd_def Let_def H5Dread_def H5Dopen_def file0_def
      db_hdf5_fullname_def f0_def int_dataset_def hdf2hdf_type_def lp64_def env0_def casts0_def
      sizeof_char_def)

subsection \<open>Writing without data\<close>

lemma nels_fold:
  "fold (\<lambda>i nels. nels * sizes i) xs acc =
     acc * (word_of_int (prod_list (map (\<lambda>i. sint (sizes i)) xs)) :: c_int)"
  by (induction xs arbitrary: acc) (simp_all add: word_of_int_hom_syms mult.assoc)

lemma nels_total: "compwrz_nels rank sizes = word_of_int (total_elements rank sizes)"
  by (simp add: compwrz_nels_def total_elements_def nels_fold)

text \<open>
  C9.  \<open>db_hdf5_compwrz\<close> called with a rank that is not negative and with a
  null data pointer, or with extents whose product is zero, returns 0, leaves the
  empty string in \<open>name\<close>, makes no call that changes the file and leaves the state of
  the driver as it was.
\<close>

theorem db_hdf5_compwrz_no_data:
  assumes rank: "0 \<le> sint rank"
    and empty: "buf = None \<or> total_elements rank sizes = 0"
  shows "db_hdf5_compwrz env T dbfile dtype rank sizes buf name fname compressionFlags st out =
           Inr (0, [], st, out)"
proof -
  from empty have "buf = None \<or> compwrz_nels rank sizes = 0"
    by (auto simp add: nels_total)
  with rank show ?thesis
    by (simp add: db_hdf5_compwrz_def Let_def)
qed

theorem db_hdf5_compwrz_no_data_witness:
  "db_hdf5_compwrz env0 T0 f0 (Some DB_FLOAT) 2 (arr_of [3, 0]) (Some (Floats [])) ''x'' None 0
     driver0 out0 = Inr (0, [], driver0, out0) \<and>
   db_hdf5_compwrz env0 T0 f0 (Some DB_FLOAT) 1 (arr_of [2]) None ''x'' None 0
     driver0 out0 = Inr (0, [], driver0, out0)"
proof -
  have t: "total_elements 2 (arr_of [3, 0]) = 0"
    by (simp add: total_elements_def arr_of_def upt_conv_Cons)
  show ?thesis
    using db_hdf5_compwrz_no_data [of 2 "Some (Floats [])" "arr_of [3, 0]" env0 T0 f0 "Some DB_FLOAT"
        "''x''" None 0 driver0 out0]
      db_hdf5_compwrz_no_data [of 1 None "arr_of [2]" env0 T0 f0 "Some DB_FLOAT"
        "''x''" None 0 driver0 out0]
    by (simp add: t)
qed

text \<open>
  With data and a count that is not zero the same call mints the next name of the
  link group, creates the dataset there and writes the data.
\<close>

lemma db_hdf5_compwrz_writes_example:
  "map_sum id (\<lambda>(r, n, st, out). (r, n, out))
     (db_hdf5_compwrz env0 T0 f0 (Some DB_FLOAT) 1 (arr_of [2]) (Some (Floats [1, 2])) [] None 0
        driver0 out0) =
   Inr (7, ''/.silo/#000042'',
        \<lparr>nlinks_attr = Some 42,
         h5ops = [Op_H5Awrite_nlinks 42,
                  Op_H5Dcreate Loc_link ''/.silo/#000042'' (T0 DB_FLOAT) [2] None,
                  Op_H5Dwrite ''/.silo/#000042'' H5T_NATIVE_FLOAT (Floats [1, 2])],
         next_hid = 8\<rparr>)"
  by code_simp

subsection \<open>Preparing the read of a compressed variable\<close>

lemma compckz_state:
  "db_hdf5_compckz env file f n st = (r, st') \<Longrightarrow> \<exists>l. st' = st\<lparr>errlog := l\<rparr>"
  by (auto simp: db_hdf5_compckz_def db_perror_def split: option.splits if_splits
      intro: exI [of _ "errlog st"])

lemma haveCompressed_loop_state:
  "haveCompressed_loop env file f vs is st = Inr (r, st') \<Longrightarrow> \<exists>l. st' = st\<lparr>errlog := l\<rparr>"
proof (induction "is" arbitrary: st)
  case Nil
  then show ?case by (auto intro: exI [of _ "errlog st"])
next
  case (Cons i "is")
  from Cons.prems have i: "i < length vs" by (auto split: if_splits)
  obtain h s1 where c: "db_hdf5_compckz env file f (Some (vs ! i)) st = (h, s1)"
    by (cases "db_hdf5_compckz env file f (Some (vs ! i)) st")
  from compckz_state [OF c] obtain l1 where s1: "s1 = st\<lparr>errlog := l1\<rparr>" ..
  show ?case
  proof (cases "h = 0")
    case True
    with Cons.prems i c have "haveCompressed_loop env file f vs is s1 = Inr (r, st')" by simp
    from Cons.IH [OF this] obtain l2 where "st' = s1\<lparr>errlog := l2\<rparr>" ..
    with s1 have "st' = st\<lparr>errlog := l2\<rparr>" by simp
    then show ?thesis ..
  next
    case False
    with Cons.prems i c have "st' = s1" by simp
    with s1 show ?thesis by blast
  qed
qed

lemma haveCompressed_mask:
  assumes "haveCompressed env file f vs nvals st = Inr (r, st')"
  shows "silo_globals st' = silo_globals st" "keptNodelistInfos st' = keptNodelistInfos st"
    "hzip_params st' = hzip_params st"
  using haveCompressed_loop_state [OF assms [unfolded haveCompressed_def]] by auto







end
